theory Spec2Isabelle
  imports Complex_Main
begin

section \<open>Python values, exceptions and library functions\<close>

text \<open>
  The engine of \<^verbatim>\<open>rules.py\<close> works on loosely typed facts. A fact value is a
  string, an integer, a float or \<^verbatim>\<open>None\<close>. Integers are unbounded, as in Python. A
  float value is named by the rational it denotes (infinities and NaN have no name
  here); what Python computes on numbers is not derived from that rational but taken
  from the library below. A character is a code point below 256.

  Match qualities and scores are floats in the code. The model carries the rational that
  each constant, each quotient of two lengths and each sum denotes, and does not round
  them.
\<close>

datatype pyval = VNone | VStr string | VInt int | VFloat rat

text \<open>Every exception the modelled code can raise is a value.\<close>

datatype error =
  ZeroDivisionError | ValueError | IndexError | AttributeError | TypeError | OverflowError

text \<open>
  Three library functions of Python are used by the matcher on caller-supplied text:
  \<^verbatim>\<open>re.search\<close> on a caller-supplied pattern, \<^verbatim>\<open>int(s)\<close> and \<^verbatim>\<open>float(s)\<close>.
  They are not code of the repository and are taken as parameters. The outcome of
  \<^verbatim>\<open>re.search(pattern, value)\<close> is \<^verbatim>\<open>re.error\<close>, no match, or a match together with
  \<^verbatim>\<open>match.group(1) if match.groups() else match.group(0)\<close> (which is \<^verbatim>\<open>None\<close> when
  group 1 took no part in the match). The parsers return \<open>None\<close> for \<^verbatim>\<open>ValueError\<close>.

  So are the two operations of the matcher on a pair of numbers, which follow Python's
  mixed integer and floating-point arithmetic: \<open>num_eq\<close> is \<^verbatim>\<open>value == test\<close>, which
  never raises, and \<open>num_near\<close> is \<^verbatim>\<open>abs(value - test) < 1e-6\<close>, where the
  subtraction rounds and raises \<^verbatim>\<open>OverflowError\<close> on an integer too large for a float.
\<close>

datatype re_outcome = ReError | ReNoMatch | ReMatch "string option"

record pylib =
  re_search :: "string \<Rightarrow> string \<Rightarrow> re_outcome"
  int_of_str :: "string \<Rightarrow> int option"
  float_of_str :: "string \<Rightarrow> rat option"
  num_eq :: "pyval \<Rightarrow> pyval \<Rightarrow> bool"
  num_near :: "pyval \<Rightarrow> pyval \<Rightarrow> error + bool"

subsection \<open>String methods\<close>

definition startswith :: "string \<Rightarrow> string \<Rightarrow> bool" where
  "startswith s p = (take (length p) s = p)"

definition endswith :: "string \<Rightarrow> string \<Rightarrow> bool" where
  "endswith s p = (length p \<le> length s \<and> drop (length s - length p) s = p)"

text \<open>\<^verbatim>\<open>p in s\<close> on strings: \<open>p\<close> occurs in \<open>s\<close> as a contiguous substring.\<close>

fun str_in :: "string \<Rightarrow> string \<Rightarrow> bool" where
  "str_in p [] = (p = [])"
| "str_in p (c # cs) = (startswith (c # cs) p \<or> str_in p cs)"

text \<open>
  \<^verbatim>\<open>s.split('/@')\<close>: the pieces of \<open>s\<close> between the non-overlapping occurrences of the
  separator, found left to right. The first argument accumulates the current piece in
  reverse.
\<close>

fun split_slash_at :: "string \<Rightarrow> string \<Rightarrow> string list" where
  "split_slash_at acc [] = [rev acc]"
| "split_slash_at acc [c] = [rev (c # acc)]"
| "split_slash_at acc (c # d # cs) =
     (if c = CHR ''/'' \<and> d = CHR ''@'' then rev acc # split_slash_at [] cs
      else split_slash_at (c # acc) (d # cs))"

text \<open>\<^verbatim>\<open>prefix, _, suffix = test.partition('*')\<close>.\<close>

definition partition_star :: "string \<Rightarrow> string \<times> string" where
  "partition_star s =
     (takeWhile (\<lambda>c. c \<noteq> CHR ''*'') s, drop 1 (dropWhile (\<lambda>c. c \<noteq> CHR ''*'') s))"

text \<open>\<^verbatim>\<open>len(a) / len(b)\<close> is true division and raises on a zero divisor.\<close>

definition len_div :: "nat \<Rightarrow> nat \<Rightarrow> error + rat" where
  "len_div n m = (if m = 0 then Inl ZeroDivisionError else Inr (of_nat n / of_nat m))"

subsection \<open>The search pattern of an extract-match\<close>

text \<open>
  For a test with the marker \<^verbatim>\<open>$*\<close> the matcher builds its own pattern:
  \<^verbatim>\<open>re.escape(test)\<close> with every \<^verbatim>\<open>\$\*\$\<close> replaced by \<^verbatim>\<open>([^\s]+)\<close> when
  \<^verbatim>\<open>$*$\<close> occurs in the test, and otherwise with every \<^verbatim>\<open>\$\*\<close> replaced by
  \<^verbatim>\<open>(.*)\<close>. Every other character of the test is escaped and stands for itself, so
  the pattern is a sequence of literal characters and greedy capture groups.
\<close>

datatype tok = Lit char | GroupAny | GroupNonSpace

fun toks_nonspace :: "string \<Rightarrow> tok list" where
  "toks_nonspace (a # b # c # rest) =
     (if a = CHR ''$'' \<and> b = CHR ''*'' \<and> c = CHR ''$'' then GroupNonSpace # toks_nonspace rest
      else Lit a # toks_nonspace (b # c # rest))"
| "toks_nonspace (a # rest) = Lit a # toks_nonspace rest"
| "toks_nonspace [] = []"

fun toks_any :: "string \<Rightarrow> tok list" where
  "toks_any (a # b # rest) =
     (if a = CHR ''$'' \<and> b = CHR ''*'' then GroupAny # toks_any rest
      else Lit a # toks_any (b # rest))"
| "toks_any (a # rest) = Lit a # toks_any rest"
| "toks_any [] = []"

definition extract_pattern :: "string \<Rightarrow> tok list" where
  "extract_pattern test =
     (if str_in ''$*$'' test then toks_nonspace test else toks_any test)"

text \<open>
  \<^verbatim>\<open>\s\<close> in a pattern on \<^verbatim>\<open>str\<close>: the code points for which \<^verbatim>\<open>str.isspace\<close> holds;
  \<^verbatim>\<open>.\<close> matches everything but a newline.
\<close>

definition is_space :: "char \<Rightarrow> bool" where
  "is_space c = ((of_char c :: nat) \<in> {9, 10, 11, 12, 13, 28, 29, 30, 31, 32, 133, 160})"

definition is_newline :: "char \<Rightarrow> bool" where
  "is_newline c = ((of_char c :: nat) = 10)"

fun first_some :: "'a option list \<Rightarrow> 'a option" where
  "first_some [] = None"
| "first_some (None # xs) = first_some xs"
| "first_some (Some x # xs) = Some x"

text \<open>
  Matching the pattern at the start of a string, as the backtracking engine does: a group
  first takes as many characters as it may and gives them back one at a time until the
  rest of the pattern matches. The result is the list of the groups' captures.
\<close>

primrec match_here :: "tok list \<Rightarrow> string \<Rightarrow> string list option" where
  "match_here [] s = Some []"
| "match_here (t # ts) s =
     (case t of
        Lit c \<Rightarrow> (case s of [] \<Rightarrow> None | x # xs \<Rightarrow> if x = c then match_here ts xs else None)
      | GroupAny \<Rightarrow>
          first_some (map (\<lambda>k. map_option ((#) (take k s)) (match_here ts (drop k s)))
            (rev [0 ..< Suc (length (takeWhile (\<lambda>c. \<not> is_newline c) s))]))
      | GroupNonSpace \<Rightarrow>
          first_some (map (\<lambda>k. map_option ((#) (take k s)) (match_here ts (drop k s)))
            (rev [1 ..< Suc (length (takeWhile (\<lambda>c. \<not> is_space c) s))])))"

text \<open>\<^verbatim>\<open>re.search\<close> tries the start positions from left to right.\<close>

definition search_toks :: "tok list \<Rightarrow> string \<Rightarrow> string list option" where
  "search_toks ts s = first_some (map (\<lambda>i. match_here ts (drop i s)) [0 ..< Suc (length s)])"

section \<open>Knowledge Element\<close>

text \<open>
  An \<^verbatim>\<open>Element\<close> keeps its facts as attributes of the object; \<^verbatim>\<open>__dict__\<close> lists them
  in insertion order. It is modelled by that dictionary, an association list with
  distinct keys. The attributes every \<^verbatim>\<open>Element\<close> inherits from its class (its methods)
  are not part of the model.
\<close>

type_synonym element = "(string \<times> pyval) list"

definition contains :: "element \<Rightarrow> string \<Rightarrow> bool" where
  "contains self key = (map_of self key \<noteq> None)"

definition getitem :: "element \<Rightarrow> string \<Rightarrow> pyval" where
  "getitem self key = (case map_of self key of None \<Rightarrow> VNone | Some v \<Rightarrow> v)"

fun setitem :: "element \<Rightarrow> string \<Rightarrow> pyval \<Rightarrow> element" where
  "setitem [] key v = [(key, v)]"
| "setitem ((k, w) # rest) key v =
     (if k = key then (k, v) # rest else (k, w) # setitem rest key v)"

subsection \<open>The field matcher\<close>

text \<open>
  The numeric coercion at the head of \<^verbatim>\<open>_matcher\<close>: a string facing a number is parsed
  with \<^verbatim>\<open>float\<close> when it has a decimal point and with \<^verbatim>\<open>int\<close> otherwise, and is left
  as it is when the parser raises \<^verbatim>\<open>ValueError\<close>.
\<close>

definition is_number :: "pyval \<Rightarrow> bool" where
  "is_number v = (case v of VInt _ \<Rightarrow> True | VFloat _ \<Rightarrow> True | _ \<Rightarrow> False)"

definition is_str :: "pyval \<Rightarrow> bool" where
  "is_str v = (case v of VStr _ \<Rightarrow> True | _ \<Rightarrow> False)"

definition parse_number :: "pylib \<Rightarrow> string \<Rightarrow> pyval" where
  "parse_number lib s =
     (if CHR ''.'' \<in> set s
      then (case float_of_str lib s of None \<Rightarrow> VStr s | Some x \<Rightarrow> VFloat x)
      else (case int_of_str lib s of None \<Rightarrow> VStr s | Some n \<Rightarrow> VInt n))"

definition coerce :: "pylib \<Rightarrow> pyval \<Rightarrow> pyval \<Rightarrow> pyval \<times> pyval" where
  "coerce lib val test =
     (case (val, test) of
        (VStr s, VInt _) \<Rightarrow> (parse_number lib s, test)
      | (VStr s, VFloat _) \<Rightarrow> (parse_number lib s, test)
      | (VInt _, VStr t) \<Rightarrow> (val, parse_number lib t)
      | (VFloat _, VStr t) \<Rightarrow> (val, parse_number lib t)
      | _ \<Rightarrow> (val, test))"

text \<open>
  The numeric branch of \<^verbatim>\<open>_matcher\<close> (source lines 172 to 176): the quality of a
  number against a number.
\<close>

definition num_matcher :: "pylib \<Rightarrow> pyval \<Rightarrow> pyval \<Rightarrow> error + rat" where
  "num_matcher lib val test =
     (if num_eq lib val test then Inr 1
      else (case num_near lib val test of
              Inl e \<Rightarrow> Inl e
            | Inr near \<Rightarrow> if near then Inr (9 / 10) else Inr 0))"

text \<open>
  The four star forms (source lines 148 to 169). The result is the match quality;
  \<^verbatim>\<open>match_quality\<close> stays \<open>0.0\<close> where the form does not match.
\<close>

definition star_match :: "string \<Rightarrow> string \<Rightarrow> error + rat" where
  "star_match val test =
     (if startswith test ''*'' then
        (if endswith test ''*'' then
           (let pattern = butlast (drop 1 test)
            in if str_in pattern val then len_div (length pattern) (length val) else Inr 0)
         else
           (let pattern = drop 1 test
            in if endswith val pattern then len_div (length pattern) (length val) else Inr 0))
      else if endswith test ''*'' then
        (let pattern = butlast test
         in if str_in pattern val then len_div (length pattern) (length val) else Inr 0)
      else
        (let (prefix, suffix) = partition_star test
         in if startswith val prefix \<and> endswith val suffix
            then len_div (length prefix + length suffix) (length val) else Inr 0))"

text \<open>
  Extract-matching (source lines 134 to 146). The result is the quality, the new
  \<^verbatim>\<open>match_value\<close> if it was assigned, and \<^verbatim>\<open>match_target\<close>. Unpacking the split into
  two names raises \<^verbatim>\<open>ValueError\<close> unless there are exactly two pieces, and
  \<^verbatim>\<open>match.group(1)\<close> raises \<^verbatim>\<open>IndexError\<close> when the pattern has no group.
\<close>

definition extract_match :: "string \<Rightarrow> string \<Rightarrow> error + (rat \<times> string option \<times> string)" where
  "extract_match val test =
     (let unpacked =
            (if str_in ''/@'' test
             then (case split_slash_at [] test of
                     [t, target] \<Rightarrow> Inr (t, target)
                   | _ \<Rightarrow> Inl ValueError)
             else Inr (test, ''match''))
      in case unpacked of
           Inl e \<Rightarrow> Inl e
         | Inr (t, match_target) \<Rightarrow>
             (case search_toks (extract_pattern t) val of
                None \<Rightarrow> Inr (0, None, match_target)
              | Some [] \<Rightarrow> Inl IndexError
              | Some (g # _) \<Rightarrow> Inr (3 / 4, Some g, match_target)))"

text \<open>
  The string branch of \<^verbatim>\<open>_matcher\<close> (source lines 109 to 169): quality, the new
  \<^verbatim>\<open>match_value\<close> if it was assigned, and \<^verbatim>\<open>match_target\<close>.
\<close>

definition str_matcher ::
  "pylib \<Rightarrow> string \<Rightarrow> string \<Rightarrow> error + (rat \<times> pyval option \<times> string option)" where
  "str_matcher lib val test =
     (if val = test then Inr (1, None, None)
      else if test = ''*'' then Inr (1 / 4, None, None)
      else if startswith test ''re/'' then
        (let pattern = (if endswith test ''/'' then butlast (drop 3 test) else drop 3 test)
         in case re_search lib pattern val of
              ReMatch g \<Rightarrow> Inr (3 / 4, Some (case g of None \<Rightarrow> VNone | Some x \<Rightarrow> VStr x), None)
            | _ \<Rightarrow> Inr (0, None, None))
      else if CHR ''*'' \<in> set test then
        (if str_in ''$*'' test then
           (case extract_match val test of
              Inl e \<Rightarrow> Inl e
            | Inr (q, g, target) \<Rightarrow> Inr (q, map_option VStr g, Some target))
         else
           (case star_match val test of
              Inl e \<Rightarrow> Inl e
            | Inr q \<Rightarrow> Inr (q, None, None)))
      else Inr (0, None, None))"

text \<open>
  \<^verbatim>\<open>Element._matcher(value, test)\<close>. \<^verbatim>\<open>match_value\<close> starts as the value before
  coercion; the last line returns
  \<^verbatim>\<open>match_quality, match_value if match_quality else None, match_target\<close>.
\<close>

definition Element_matcher :: "pylib \<Rightarrow> pyval \<Rightarrow> pyval \<Rightarrow> error + (rat \<times> pyval \<times> string option)" where
  "Element_matcher lib val0 test0 =
     (let match_value = val0;
          (val, test) = coerce lib val0 test0
      in case (val, test) of
           (VStr v, VStr t) \<Rightarrow>
             (case str_matcher lib v t of
                Inl e \<Rightarrow> Inl e
              | Inr (q, mv, target) \<Rightarrow>
                  Inr (q, if q \<noteq> 0 then (case mv of None \<Rightarrow> match_value | Some x \<Rightarrow> x) else VNone,
                       target))
         | _ \<Rightarrow>
             (if is_number val \<and> is_number test then
                (case num_matcher lib val test of
                   Inl e \<Rightarrow> Inl e
                 | Inr q \<Rightarrow> Inr (q, if q \<noteq> 0 then match_value else VNone, None))
              else Inr (0, VNone, None)))"

subsection \<open>Matching an element against a test element\<close>

text \<open>
  \<^verbatim>\<open>Element.match(self, test)\<close> walks the fields of \<open>test\<close> in order and writes every
  capture into \<open>self\<close> at once. The loop is \<open>match_loop\<close>, with the tested element and
  the running score as its state; the result is the returned score and the element as
  the call leaves it.
\<close>

fun match_loop :: "pylib \<Rightarrow> element \<Rightarrow> (string \<times> pyval) list \<Rightarrow> rat \<Rightarrow> error + (rat \<times> element)" where
  "match_loop lib self [] score = Inr (score, self)"
| "match_loop lib self ((key, test) # rest) score =
     (if startswith key ''__'' then match_loop lib self rest score
      else if contains self key then
        (case Element_matcher lib (getitem self key) test of
           Inl e \<Rightarrow> Inl e
         | Inr (score_l, value_l, target_l) \<Rightarrow>
             (let self' = (case target_l of
                             None \<Rightarrow> self
                           | Some t \<Rightarrow> if t \<noteq> [] then setitem self (key @ ''/'' @ t) value_l
                                       else self)
              in if score_l = 0 then Inr (0, self')
                 else match_loop lib self' rest (score + (100 + score_l))))
      else Inr (0, self))"

definition Element_match :: "pylib \<Rightarrow> element \<Rightarrow> element \<Rightarrow> error + (rat \<times> element)" where
  "Element_match lib self test = match_loop lib self test 0"

section \<open>Rule\<close>

text \<open>
  An action of a rule is a \<^verbatim>\<open>dict\<close>, a \<^verbatim>\<open>tuple\<close>, or anything else (which
  \<^verbatim>\<open>execute\<close> passes over).
\<close>

datatype action = ADict "(pyval \<times> pyval) list" | ATuple "pyval list" | AOther

record rule =
  rule_id :: string
  namespace :: string
  conditions :: element
  actions :: "action list"
  weight :: rat

text \<open>\<^verbatim>\<open>Rule.match(self, knowledge)\<close> is \<^verbatim>\<open>knowledge.match(self.__conditions__)\<close>.\<close>

definition Rule_match :: "pylib \<Rightarrow> rule \<Rightarrow> element \<Rightarrow> error + (rat \<times> element)" where
  "Rule_match lib r knowledge = Element_match lib knowledge (conditions r)"

subsection \<open>Execution\<close>

text \<open>
  \<^verbatim>\<open>execute(immediate, long=None, artifacts=None)\<close> works on two memories, both
  \<^verbatim>\<open>Element\<close>s, the second optional, and on the \<^verbatim>\<open>artifacts\<close> collaborator. What the
  collaborator sees of the engine is the sequence of \<^verbatim>\<open>process(func_name, params)\<close>
  calls it receives, kept here as \<open>process_calls\<close>.
\<close>

record env =
  immediate :: element
  long :: "element option"
  process_calls :: "(string \<times> pyval option) list"

text \<open>
  The reference \<^verbatim>\<open>$name\<close> of \<^verbatim>\<open>_action_memory\<close>: looked up in \<^verbatim>\<open>immediate\<close>, then in
  \<^verbatim>\<open>long\<close> if there is one, else \<^verbatim>\<open>None\<close>.
\<close>

definition resolve_value :: "pyval \<Rightarrow> env \<Rightarrow> pyval" where
  "resolve_value v m =
     (case v of
        VStr s \<Rightarrow>
          (if s \<noteq> [] \<and> startswith s ''$'' then
             (let v_key = drop 1 s
              in if contains (immediate m) v_key then getitem (immediate m) v_key
                 else (case long m of
                         Some l \<Rightarrow> if contains l v_key then getitem l v_key else VNone
                       | None \<Rightarrow> VNone))
           else v)
      | _ \<Rightarrow> v)"

text \<open>
  \<^verbatim>\<open>Rule._action_memory(key, value, immediate, long)\<close>. \<^verbatim>\<open>key.startswith\<close> raises
  \<^verbatim>\<open>AttributeError\<close> on a key that is not a string.
\<close>

definition Rule_action_memory :: "pyval \<Rightarrow> pyval \<Rightarrow> env \<Rightarrow> error + env" where
  "Rule_action_memory key0 value0 m =
     (case key0 of
        VStr k0 \<Rightarrow>
          (let force_long = startswith k0 ''@'';
               key = (if force_long then drop 1 k0 else k0);
               v = resolve_value value0 m
           in case long m of
                Some l \<Rightarrow>
                  (if contains l key \<or> force_long then Inr (m\<lparr>long := Some (setitem l key v)\<rparr>)
                   else Inr (m\<lparr>immediate := setitem (immediate m) key v\<rparr>))
              | None \<Rightarrow>
                  (if \<not> force_long then Inr (m\<lparr>immediate := setitem (immediate m) key v\<rparr>)
                   else Inr m))
      | _ \<Rightarrow> Inl AttributeError)"

definition Rule_is_action_artifact :: "pyval \<Rightarrow> bool" where
  "Rule_is_action_artifact a = (case a of VStr s \<Rightarrow> startswith s ''!'' | _ \<Rightarrow> False)"

text \<open>
  \<^verbatim>\<open>Rule._action_artifact(artifacts, func_name, params=None)\<close> has the body
  \<^verbatim>\<open>pass\<close>: it returns without touching its arguments.
\<close>

definition Rule_action_artifact :: "pyval \<Rightarrow> pyval option \<Rightarrow> env \<Rightarrow> env" where
  "Rule_action_artifact func_name params m = m"

text \<open>
  One turn of the loop of \<^verbatim>\<open>execute\<close>. A \<^verbatim>\<open>dict\<close> has no method \<^verbatim>\<open>elements\<close> and a
  \<^verbatim>\<open>Rule\<close> has no attribute \<^verbatim>\<open>DEFAULT_KEY\<close>, so both lookups raise
  \<^verbatim>\<open>AttributeError\<close>.
\<close>

definition execute_action :: "action \<Rightarrow> env \<Rightarrow> error + env" where
  "execute_action a m =
     (case a of
        ADict d \<Rightarrow> Inl AttributeError
      | ATuple [x] \<Rightarrow>
          (if Rule_is_action_artifact x then Inr (Rule_action_artifact x None m)
           else Inl AttributeError)
      | ATuple [x, y] \<Rightarrow>
          (if Rule_is_action_artifact x then Inr (Rule_action_artifact x (Some y) m)
           else Rule_action_memory x y m)
      | _ \<Rightarrow> Inr m)"

fun execute_loop :: "action list \<Rightarrow> env \<Rightarrow> error + env" where
  "execute_loop [] m = Inr m"
| "execute_loop (a # rest) m =
     (case execute_action a m of Inl e \<Rightarrow> Inl e | Inr m' \<Rightarrow> execute_loop rest m')"

definition Rule_execute :: "rule \<Rightarrow> env \<Rightarrow> error + env" where
  "Rule_execute r m = execute_loop (actions r) m"

section \<open>Rule Base\<close>

text \<open>
  A \<^verbatim>\<open>RuleBase\<close> is a \<^verbatim>\<open>dict\<close> from namespace to a \<^verbatim>\<open>set\<close> of rules. The dictionary
  keeps its keys in insertion order; a set is walked in an order of its own, fixed while
  the set does not change. Both are association lists here, each bucket listing its rules
  in the order the set yields them.
\<close>

type_synonym rulebase = "(string \<times> rule list) list"

text \<open>\<^verbatim>\<open>RuleBase.__iadd__(self, rule)\<close>; a set holds an object once (rules have identity).\<close>

fun iadd :: "rulebase \<Rightarrow> rule \<Rightarrow> rulebase" where
  "iadd [] r = [(namespace r, [r])]"
| "iadd ((ns, rs) # rest) r =
     (if ns = namespace r then (ns, if r \<in> set rs then rs else rs @ [r]) # rest
      else (ns, rs) # iadd rest r)"

datatype strategy = FIRST_MATCH | BEST_MATCHES | ALL_MATCHES

text \<open>
  The \<^verbatim>\<open>namespace\<close> argument of \<^verbatim>\<open>select\<close>: omitted, a string, a tuple of strings or a
  list of strings. An element of the search space is a key the dictionary is asked for.
\<close>

datatype namespace_arg = NsNone | NsStr string | NsTuple "string list" | NsList "string list"

datatype key = KStr string | KTuple "string list" | KList "string list"

text \<open>
  Source lines 371 to 373: a non-empty string, tuple or list is \<^verbatim>\<open>Iterable\<close> and truthy
  and is wrapped as the only element of the search space; an empty one is falsy, like
  \<^verbatim>\<open>None\<close>, and stands for all the keys.
\<close>

definition search_space :: "rulebase \<Rightarrow> namespace_arg \<Rightarrow> key list" where
  "search_space self ns =
     (case ns of
        NsNone \<Rightarrow> map (KStr \<circ> fst) self
      | NsStr s \<Rightarrow> if s \<noteq> [] then [KStr s] else map (KStr \<circ> fst) self
      | NsTuple t \<Rightarrow> if t \<noteq> [] then [KTuple t] else map (KStr \<circ> fst) self
      | NsList l \<Rightarrow> if l \<noteq> [] then [KList l] else map (KStr \<circ> fst) self)"

text \<open>
  \<^verbatim>\<open>ns in self\<close> followed by \<^verbatim>\<open>self[ns]\<close>: a list is unhashable and raises
  \<^verbatim>\<open>TypeError\<close>; a tuple is hashable and equal to no string key.
\<close>

definition bucket :: "rulebase \<Rightarrow> key \<Rightarrow> error + rule list option" where
  "bucket self k =
     (case k of
        KStr s \<Rightarrow> Inr (map_of self s)
      | KTuple t \<Rightarrow> Inr None
      | KList l \<Rightarrow> Inl TypeError)"

text \<open>The local variables of \<^verbatim>\<open>select\<close>, with the tested element it mutates.\<close>

record scan =
  best_score :: rat
  best_rule :: "rule option"
  weight_calculation :: bool
  cache_matches :: "rule list option"
  knowledge :: element

definition note_weight :: "rule \<Rightarrow> scan \<Rightarrow> scan" where
  "note_weight r st = (if weight r \<noteq> 1 then st\<lparr>weight_calculation := True\<rparr> else st)"

text \<open>
  The inner loop (source lines 381 to 398) over the rules of one namespace.
  \<^verbatim>\<open>cache_matches\<close> is a list whenever the strategy is not \<^verbatim>\<open>FIRST_MATCH\<close>.
\<close>

fun scan_rules :: "pylib \<Rightarrow> strategy \<Rightarrow> rule list \<Rightarrow> scan \<Rightarrow> error + scan" where
  "scan_rules lib strat [] st = Inr st"
| "scan_rules lib strat (r # rest) st =
     (case Rule_match lib r (knowledge st) of
        Inl e \<Rightarrow> Inl e
      | Inr (score_l, k') \<Rightarrow>
          (let st1 = st\<lparr>knowledge := k'\<rparr>
           in if score_l \<noteq> 0 then
                (if strat = FIRST_MATCH then Inr (st1\<lparr>best_score := score_l, best_rule := Some r\<rparr>)
                 else if score_l > best_score st1 then
                   scan_rules lib strat rest
                     (note_weight r
                        (st1\<lparr>best_score := score_l, best_rule := Some r,
                             cache_matches :=
                               map_option (\<lambda>c. (if strat = BEST_MATCHES then [] else c) @ [r])
                                 (cache_matches st1)\<rparr>))
                 else if score_l = best_score st1 then
                   scan_rules lib strat rest
                     (note_weight r
                        (st1\<lparr>cache_matches := map_option (\<lambda>c. c @ [r]) (cache_matches st1)\<rparr>))
                 else scan_rules lib strat rest st1)
              else scan_rules lib strat rest st1))"

text \<open>The outer loop (source lines 375 to 403) over the search space.\<close>

fun scan_space :: "pylib \<Rightarrow> strategy \<Rightarrow> rulebase \<Rightarrow> key list \<Rightarrow> scan \<Rightarrow> error + scan" where
  "scan_space lib strat self [] st = Inr st"
| "scan_space lib strat self (ns # rest) st =
     (case bucket self ns of
        Inl e \<Rightarrow> Inl e
      | Inr None \<Rightarrow> scan_space lib strat self rest st
      | Inr (Some rs) \<Rightarrow>
          (case scan_rules lib strat rs st of
             Inl e \<Rightarrow> Inl e
           | Inr st' \<Rightarrow>
               if best_rule st' \<noteq> None \<and> strat = FIRST_MATCH then Inr st'
               else scan_space lib strat self rest st'))"

text \<open>
  What \<^verbatim>\<open>select\<close> returns first: \<^verbatim>\<open>None\<close>, a rule, or a list of rules.
  \<^verbatim>\<open>random.choices(population, weights, k=1)\<close> returns a list of one member of the
  population; which one it draws is the argument \<open>draw\<close> here, the index reduced modulo the
  size of the population. The distribution of the draw is not modelled.
\<close>

datatype selected = NoRule | OneRule rule | RuleList "rule list"

definition random_choices :: "nat \<Rightarrow> rule list \<Rightarrow> rule list" where
  "random_choices draw population = [population ! (draw mod length population)]"

text \<open>Source lines 413 to 424: the choice among the cached matches.\<close>

definition choose_rule :: "nat \<Rightarrow> scan \<Rightarrow> error + selected" where
  "choose_rule draw st =
     (let kept = (case best_rule st of None \<Rightarrow> NoRule | Some r \<Rightarrow> OneRule r)
      in case cache_matches st of
           None \<Rightarrow> Inr kept
         | Some [] \<Rightarrow> Inr kept
         | Some [r] \<Rightarrow> Inr (OneRule r)
         | Some cache \<Rightarrow>
             (if weight_calculation st then
                (let total_weight = sum_list (map weight cache)
                 in if total_weight = 0 then Inl ZeroDivisionError
                    else Inr (OneRule (hd (random_choices draw cache))))
              else Inr (RuleList (random_choices draw cache))))"

text \<open>
  \<^verbatim>\<open>RuleBase.select(self, test, namespace, strategy)\<close>: the returned triple and the
  tested element as the call leaves it.
\<close>

definition RuleBase_select ::
  "pylib \<Rightarrow> nat \<Rightarrow> rulebase \<Rightarrow> element \<Rightarrow> namespace_arg \<Rightarrow> strategy
     \<Rightarrow> error + (selected \<times> rat \<times> rule list option \<times> element)" where
  "RuleBase_select lib draw self test ns strat =
     (let st0 = \<lparr>best_score = 0, best_rule = None, weight_calculation = False,
                 cache_matches = (if strat = FIRST_MATCH then None else Some []),
                 knowledge = test\<rparr>
      in case scan_space lib strat self (search_space self ns) st0 of
           Inl e \<Rightarrow> Inl e
         | Inr st \<Rightarrow>
             (case choose_rule draw st of
                Inl e \<Rightarrow> Inl e
              | Inr sel \<Rightarrow> Inr (sel, best_score st, cache_matches st, knowledge st)))"

section \<open>The walk of \<open>Element.match\<close>, field by field\<close>









subsection \<open>The candidates of two strategies\<close>

text \<open>
  The states of a \<^verbatim>\<open>BEST_MATCHES\<close> scan and of an \<^verbatim>\<open>ALL_MATCHES\<close> scan over the same
  rules agree on the best score, the best rule and the tested element, and every candidate
  of the first is a candidate of the second.
\<close>

definition cache_rel :: "scan \<Rightarrow> scan \<Rightarrow> bool" where
  "cache_rel b a =
     (best_score b = best_score a \<and> best_rule b = best_rule a \<and> knowledge b = knowledge a
      \<and> (case (cache_matches b, cache_matches a) of
            (Some cb, Some ca) \<Rightarrow> set cb \<subseteq> set ca
          | _ \<Rightarrow> False))"

section \<open>Sample data\<close>


text \<open>The facts and rules of \<^verbatim>\<open>test_rule_select\<close> in \<^verbatim>\<open>tests/test_units.py\<close>.\<close>

definition session :: element where
  "session = [(''target'', VStr ''api.openai.com''), (''body'', VStr ''string model=ollama string'')]"

definition rule_openai :: rule where
  "rule_openai = \<lparr>rule_id = ''r-1'', namespace = ''level-1'',
     conditions = [(''target'', VStr ''*.openai.com'')],
     actions = [ATuple [VStr ''destination'', VStr ''ollama'']], weight = 1 / 5\<rparr>"

text \<open>The second rule of the test, placed in a namespace of its own.\<close>

definition rule_com :: rule where
  "rule_com = \<lparr>rule_id = ''r-2'', namespace = ''level-2'',
     conditions = [(''target'', VStr ''*.com'')],
     actions = [ATuple [VStr ''destination'', VStr ''openai'']], weight = 4 / 5\<rparr>"

text \<open>Two rules of weight 1.0 with the same condition, in one namespace.\<close>

definition rule_a :: rule where
  "rule_a = \<lparr>rule_id = ''r-1'', namespace = ''level-1'',
     conditions = [(''target'', VStr ''*.com'')],
     actions = [ATuple [VStr ''destination'', VStr ''ollama'']], weight = 1\<rparr>"

definition rule_b :: rule where
  "rule_b = \<lparr>rule_id = ''r-2'', namespace = ''level-1'',
     conditions = [(''target'', VStr ''*.com'')],
     actions = [ATuple [VStr ''destination'', VStr ''openai'']], weight = 1\<rparr>"

definition empty_env :: env where
  "empty_env = \<lparr>immediate = [], long = None, process_calls = []\<rparr>"

section \<open>Properties of the field matcher\<close>

lemmas matcher_defs =
  Element_matcher_def coerce_def str_matcher_def star_match_def extract_match_def
  extract_pattern_def search_toks_def startswith_def endswith_def partition_star_def
  len_div_def is_space_def is_newline_def

lemmas match_defs = Element_match_def Rule_match_def contains_def getitem_def

text \<open>
  The examples of \<^verbatim>\<open>test_element_match\<close> that the model covers compute as the test
  file's comments say.
\<close>

lemma matcher_extract_nonspace:
  "Element_matcher lib (VStr ''string key=1.0 string'') (VStr ''key=$*$'')
     = Inr (3 / 4, VStr ''1.0'', Some ''match'')"
  by (simp add: matcher_defs)

lemma matcher_extract_any:
  "Element_matcher lib (VStr ''string key=1.0 string'') (VStr ''key=$*'')
     = Inr (3 / 4, VStr ''1.0 string'', Some ''match'')"
  by (simp add: matcher_defs)

lemma matcher_suffix:
  "Element_matcher lib (VStr ''string key=1.0 string'') (VStr ''*ring'')
     = Inr (4 / 21, VStr ''string key=1.0 string'', None)"
  by (simp add: matcher_defs)

text \<open>
  What holds for every input where the matcher returns: a quality of 0 comes with the
  value \<^verbatim>\<open>None\<close>.
\<close>

lemma matcher_zero_quality_no_value:
  assumes "Element_matcher lib val test = Inr (0, mv, target)"
  shows "mv = VNone"
proof -
  obtain v t where c: "coerce lib val test = (v, t)" by (cases "coerce lib val test")
  show ?thesis
  proof (cases "is_str v \<and> is_str t")
    case True
    then obtain sv st where vt: "v = VStr sv" "t = VStr st"
      by (cases v; cases t) (simp_all add: is_str_def)
    with assms c show ?thesis
      by (simp add: Element_matcher_def split: sum.splits prod.splits if_splits)
  next
    case False
    with assms c show ?thesis
      by (cases v; cases t)
         (simp_all add: Element_matcher_def is_str_def split: sum.splits if_splits)
  qed
qed

text \<open>
  A number against a number: the matcher returns what the library's comparison gives,
  and raises where the subtraction does.
\<close>

lemma matcher_numbers:
  assumes "is_number val" and "is_number test"
  shows "Element_matcher lib val test =
           (case num_matcher lib val test of
              Inl e \<Rightarrow> Inl e
            | Inr q \<Rightarrow> Inr (q, if q \<noteq> 0 then val else VNone, None))"
  using assms
  by (cases val; cases test) (auto simp: Element_matcher_def coerce_def is_number_def)

lemma matcher_numbers_overflow:
  assumes "is_number val" and "is_number test"
      and "\<not> num_eq lib val test" and "num_near lib val test = Inl OverflowError"
  shows "Element_matcher lib val test = Inl OverflowError"
  using assms by (simp add: matcher_numbers num_matcher_def)

text \<open>
  Where the test has a star at an end, one literal is looked for in the value and the
  quality is its length over the length of the value, between 0 and 1.
\<close>

lemma startswith_length: "startswith s p \<Longrightarrow> length p \<le> length s"
proof -
  assume "startswith s p"
  then have "length (take (length p) s) = length p"
    unfolding startswith_def by (rule arg_cong)
  then show ?thesis by simp
qed

lemma str_in_length: "str_in p s \<Longrightarrow> length p \<le> length s"
proof (induction s)
  case Nil
  then show ?case by simp
next
  case (Cons c cs)
  from Cons.prems have "startswith (c # cs) p \<or> str_in p cs" by simp
  then show ?case
  proof
    assume "startswith (c # cs) p"
    then show ?thesis by (rule startswith_length)
  next
    assume "str_in p cs"
    with Cons.IH have "length p \<le> length cs" by blast
    then show ?thesis by simp
  qed
qed

lemma len_div_bounds: "n \<le> m \<Longrightarrow> len_div n m = Inr q \<Longrightarrow> 0 \<le> q \<and> q \<le> 1"
  by (cases "m = 0") (auto simp: len_div_def)

lemma star_match_one_literal_bounds:
  assumes sm: "star_match val test = Inr q"
      and form: "startswith test ''*'' \<or> endswith test ''*''"
  shows "0 \<le> q \<and> q \<le> 1"
proof (cases "startswith test ''*''")
  case s: True
  show ?thesis
  proof (cases "endswith test ''*''")
    case e: True
    show ?thesis
    proof (cases "str_in (butlast (drop 1 test)) val")
      case True
      with sm s e have "len_div (length (butlast (drop 1 test))) (length val) = Inr q"
        by (simp add: star_match_def)
      with str_in_length [OF True] show ?thesis by (rule len_div_bounds)
    next
      case False
      with sm s e show ?thesis by (simp add: star_match_def)
    qed
  next
    case e: False
    show ?thesis
    proof (cases "endswith val (drop 1 test)")
      case True
      with sm s e have "len_div (length (drop 1 test)) (length val) = Inr q"
        by (simp add: star_match_def)
      moreover from True have "length (drop 1 test) \<le> length val"
        unfolding endswith_def by (rule conjunct1)
      ultimately show ?thesis by (rule len_div_bounds [rotated])
    next
      case False
      with sm s e show ?thesis by (simp add: star_match_def)
    qed
  qed
next
  case s: False
  with form have e: "endswith test ''*''" by simp
  show ?thesis
  proof (cases "str_in (butlast test) val")
    case True
    with sm s e have "len_div (length (butlast test)) (length val) = Inr q"
      by (simp add: star_match_def)
    with str_in_length [OF True] show ?thesis by (rule len_div_bounds)
  next
    case False
    with sm s e show ?thesis by (simp add: star_match_def)
  qed
qed

text \<open>
  Claim C6. The claim: whenever \<^verbatim>\<open>_matcher\<close> returns quality 0, the extracted value
  and the capture name are both none, so a failed extract-match writes nothing back.
  The code clears the value only. On the value \<^verbatim>\<open>'abc'\<close> and the test \<^verbatim>\<open>'x$*'\<close> the
  extract-match fails and \<^verbatim>\<open>_matcher\<close> returns \<^verbatim>\<open>(0.0, None, 'match')\<close>: the capture
  name survives, and \<^verbatim>\<open>Element.match\<close> then stores \<^verbatim>\<open>None\<close> under \<^verbatim>\<open>k/match\<close>
  in the tested element before it returns 0.
\<close>

theorem matcher_failed_extract_keeps_capture_name:
  "Element_matcher lib (VStr ''abc'') (VStr ''x$*'') = Inr (0, VNone, Some ''match'')
   \<and> Element_match lib [(''k'', VStr ''abc'')] [(''k'', VStr ''x$*'')]
       = Inr (0, [(''k'', VStr ''abc''), (''k/match'', VNone)])"
  by (simp add: match_defs matcher_defs)

text \<open>
  Claim C7. The claim: for the four single-star forms the quality of a match is the
  matched literal length over the length of the value and lies in (0,1]; quality is
  always in [0,1]. In the form \<^verbatim>\<open>prefix*suffix\<close> the code checks the two ends
  independently, so they may overlap in the value: the value \<^verbatim>\<open>'a'\<close> matches the test
  \<^verbatim>\<open>'a*a'\<close> with quality (1 + 1) / 1 = 2.0.
\<close>

theorem matcher_both_ends_quality_above_one:
  "Element_matcher lib (VStr ''a'') (VStr ''a*a'') = Inr (2, VStr ''a'', None)"
  by (simp add: matcher_defs)

text \<open>
  Claim C8. The claim: \<^verbatim>\<open>_matcher\<close> never raises. On the empty value and the test
  \<^verbatim>\<open>'**'\<close> the empty literal is found in the empty value and the quality is computed
  as 0 / 0: the call raises \<^verbatim>\<open>ZeroDivisionError\<close>.
\<close>

theorem matcher_raises_zero_division:
  "Element_matcher lib (VStr '''') (VStr ''**'') = Inl ZeroDivisionError"
  by (simp add: matcher_defs)

text \<open>
  Two more inputs on which the matcher raises: a test with two capture names cannot be
  unpacked into two variables, and a test whose marker sits in the capture name leaves a
  pattern without a group.
\<close>

lemma matcher_raises_value_error:
  "Element_matcher lib (VStr ''abc'') (VStr ''a$*/@x/@y'') = Inl ValueError"
  by (simp add: matcher_defs)

lemma matcher_raises_index_error:
  "Element_matcher lib (VStr ''abc'') (VStr ''abc/@$*'') = Inl IndexError"
  by (simp add: matcher_defs)

section \<open>Properties of \<open>Element.match\<close>\<close>









text \<open>
  Claim C10. \<^verbatim>\<open>Element.match\<close> is not atomic on failure: there are an element and a
  test for which it returns 0 and yet leaves the element changed, the capture of an
  earlier, successfully extract-matched field staying when a later field fails the
  match. On the element \<^verbatim>\<open>{a: 'xy'}\<close>, which has no field \<^verbatim>\<open>a/match\<close>, and the test
  \<^verbatim>\<open>{a: 'x$*', b: 'z'}\<close>: the field \<^verbatim>\<open>a\<close> extract-matches with quality 0.75 and the
  capture \<^verbatim>\<open>'y'\<close> named \<^verbatim>\<open>match\<close>; the field \<^verbatim>\<open>b\<close> is absent from the element; the
  match returns 0 and leaves the element with the new field \<^verbatim>\<open>a/match = 'y'\<close>. The
  same holds on the element \<^verbatim>\<open>{a: 'xy', b: 'w'}\<close>, where the field \<^verbatim>\<open>b\<close> is present
  and fails with quality 0.
\<close>

theorem match_not_atomic:
  "Element_matcher lib (getitem [(''a'', VStr ''xy'')] ''a'') (VStr ''x$*'')
     = Inr (3 / 4, VStr ''y'', Some ''match'')
   \<and> \<not> contains [(''a'', VStr ''xy'')] ''a/match''
   \<and> \<not> contains [(''a'', VStr ''xy''), (''a/match'', VStr ''y'')] ''b''
   \<and> Element_match lib [(''a'', VStr ''xy'')] [(''a'', VStr ''x$*''), (''b'', VStr ''z'')]
       = Inr (0, [(''a'', VStr ''xy''), (''a/match'', VStr ''y'')])
   \<and> Element_matcher lib (VStr ''w'') (VStr ''z'') = Inr (0, VNone, None)
   \<and> Element_match lib [(''a'', VStr ''xy''), (''b'', VStr ''w'')]
        [(''a'', VStr ''x$*''), (''b'', VStr ''z'')]
       = Inr (0, [(''a'', VStr ''xy''), (''b'', VStr ''w''), (''a/match'', VStr ''y'')])"
  by (simp add: match_defs matcher_defs)

section \<open>Properties of \<open>Rule.execute\<close>\<close>

lemma execute_loop_append:
  "execute_loop (xs @ ys) m =
     (case execute_loop xs m of Inl e \<Rightarrow> Inl e | Inr m' \<Rightarrow> execute_loop ys m')"
  by (induction xs arbitrary: m) (auto split: sum.splits)

text \<open>
  The pair action of \<^verbatim>\<open>test_rule_exec\<close>: the reference \<^verbatim>\<open>$h_body/model\<close> is resolved
  in the immediate memory and assigned there, the long-term memory not holding the key.
\<close>

lemma execute_pair_assigns:
  "Rule_execute (rule_a\<lparr>actions := [ATuple [VStr ''model'', VStr ''$h_body/model'']]\<rparr>)
     \<lparr>immediate = [(''h_body/model'', VStr ''llama3.2'')], long = Some [], process_calls = []\<rparr>
   = Inr \<lparr>immediate = [(''h_body/model'', VStr ''llama3.2''), (''model'', VStr ''llama3.2'')],
          long = Some [], process_calls = []\<rparr>"
  by (simp add: Rule_execute_def execute_action_def Rule_is_action_artifact_def
        Rule_action_memory_def resolve_value_def startswith_def contains_def getitem_def Let_def)

text \<open>
  Claim C4. The claim: \<^verbatim>\<open>Rule.execute\<close> applies each pair of a mapping action as a
  memory assignment. The code iterates \<^verbatim>\<open>action.elements()\<close>, a method no \<^verbatim>\<open>dict\<close>
  has (the pairs are \<^verbatim>\<open>action.items()\<close>): on a rule whose action is the mapping
  \<^verbatim>\<open>{'destination': 'ollama'}\<close> the call raises \<^verbatim>\<open>AttributeError\<close> and assigns
  nothing.
\<close>

theorem execute_mapping_action_raises:
  "Rule_execute (rule_a\<lparr>actions := [ADict [(VStr ''destination'', VStr ''ollama'')]]\<rparr>) empty_env
     = Inl AttributeError"
  by (simp add: Rule_execute_def execute_action_def)

text \<open>
  Claim C5. The claim: for a pair action whose key starts with \<^verbatim>\<open>!\<close>,
  \<^verbatim>\<open>Rule.execute\<close> calls \<^verbatim>\<open>artifacts.process(key_without_marker, value)\<close> rather than
  assigning memory. As stated it fails: \<^verbatim>\<open>_action_artifact\<close> is an empty stub, and
  on the action \<^verbatim>\<open>('!notify', 'x')\<close> the collaborator receives no call at all.
\<close>

theorem execute_artifact_no_process_call:
  "Rule_execute (rule_a\<lparr>actions := [ATuple [VStr ''!notify'', VStr ''x'']]\<rparr>) empty_env
     = Inr empty_env
   \<and> process_calls empty_env \<noteq> [(''notify'', Some (VStr ''x''))]"
  by (simp add: Rule_execute_def execute_action_def Rule_is_action_artifact_def
        Rule_action_artifact_def startswith_def empty_env_def)

text \<open>
  Claim C5, amended. For every pair action whose key is a string beginning with
  \<^verbatim>\<open>!\<close>, and for every singleton action with such a key, \<^verbatim>\<open>Rule.execute\<close> hands the
  action to \<^verbatim>\<open>_action_artifact\<close>, which does nothing: no memory is assigned and the
  artifacts collaborator is not called, so the rule executes as it would without that
  action.
\<close>

theorem execute_artifact_action_no_effect:
  assumes "Rule_is_action_artifact k"
  shows "Rule_execute (r\<lparr>actions := pre @ ATuple [k, v] # post\<rparr>) m
           = Rule_execute (r\<lparr>actions := pre @ post\<rparr>) m
         \<and> Rule_execute (r\<lparr>actions := pre @ ATuple [k] # post\<rparr>) m
           = Rule_execute (r\<lparr>actions := pre @ post\<rparr>) m"
  using assms
  by (simp add: Rule_execute_def execute_loop_append execute_action_def
        Rule_action_artifact_def split: sum.splits)

theorem execute_artifact_action_no_effect_witness:
  "Rule_is_action_artifact (VStr ''!notify'')
   \<and> Rule_execute
       (rule_a\<lparr>actions := [ATuple [VStr ''destination'', VStr ''ollama''],
                           ATuple [VStr ''!notify'', VStr ''x'']]\<rparr>) empty_env
     = Inr \<lparr>immediate = [(''destination'', VStr ''ollama'')], long = None, process_calls = []\<rparr>"
  using execute_artifact_action_no_effect
    [where k = "VStr ''!notify''" and r = rule_a
       and pre = "[ATuple [VStr ''destination'', VStr ''ollama'']]"
       and v = "VStr ''x''" and post = "[]" and m = empty_env]
  by (simp add: Rule_execute_def execute_action_def Rule_is_action_artifact_def
        startswith_def Rule_action_memory_def resolve_value_def empty_env_def)

section \<open>Properties of \<open>RuleBase.select\<close>\<close>

lemma match_rule_openai: "Rule_match lib rule_openai session = Inr (1411 / 14, session)"
  by (simp add: rule_openai_def session_def match_defs matcher_defs)

lemma match_rule_com: "Rule_match lib rule_com session = Inr (702 / 7, session)"
  by (simp add: rule_com_def session_def match_defs matcher_defs)

lemma match_rule_a: "Rule_match lib rule_a session = Inr (702 / 7, session)"
  by (simp add: rule_a_def session_def match_defs matcher_defs)

lemma match_rule_b: "Rule_match lib rule_b session = Inr (702 / 7, session)"
  by (simp add: rule_b_def session_def match_defs matcher_defs)

lemma weight_rule_a: "weight rule_a = 1"
  by (simp add: rule_a_def)

lemma weight_rule_b: "weight rule_b = 1"
  by (simp add: rule_b_def)

lemma iadd_two_namespaces:
  "iadd (iadd [] rule_openai) rule_com = [(''level-1'', [rule_openai]), (''level-2'', [rule_com])]"
  by (simp add: rule_openai_def rule_com_def)

text \<open>
  \<^verbatim>\<open>ALL_MATCHES\<close> never clears the candidates and appends whenever
  \<^verbatim>\<open>BEST_MATCHES\<close> does, so its candidates include those of \<^verbatim>\<open>BEST_MATCHES\<close> on
  the same inputs, and both report the same best score.
\<close>

lemma cache_rel_note_weight: "cache_rel b a \<Longrightarrow> cache_rel (note_weight r b) (note_weight r a)"
  by (auto simp: cache_rel_def note_weight_def split: option.splits)

lemma scan_rules_superset:
  "cache_rel b a \<Longrightarrow>
     rel_sum (=) cache_rel (scan_rules lib BEST_MATCHES rs b) (scan_rules lib ALL_MATCHES rs a)"
proof (induction rs arbitrary: b a)
  case Nil
  then show ?case by simp
next
  case (Cons r rs)
  from Cons.prems have k: "knowledge b = knowledge a" and s: "best_score b = best_score a"
    by (simp_all add: cache_rel_def)
  show ?case
  proof (cases "Rule_match lib r (knowledge a)")
    case (Inl e)
    then show ?thesis by (simp add: k)
  next
    case (Inr res)
    obtain score_l k' where res: "res = (score_l, k')" by (cases res)
    let ?b1 = "b\<lparr>knowledge := k'\<rparr>" and ?a1 = "a\<lparr>knowledge := k'\<rparr>"
    have r1: "cache_rel ?b1 ?a1" using Cons.prems by (simp add: cache_rel_def)
    consider (zero) "score_l = 0" | (higher) "score_l \<noteq> 0" "score_l > best_score a"
      | (tie) "score_l \<noteq> 0" "score_l = best_score a" | (lower) "score_l \<noteq> 0" "score_l < best_score a"
      by fastforce
    then show ?thesis
    proof cases
      case zero
      with Inr res k Cons.IH [OF r1] show ?thesis by simp
    next
      case higher
      have "cache_rel
              (note_weight r (?b1\<lparr>best_score := score_l, best_rule := Some r,
                 cache_matches := map_option (\<lambda>c. [] @ [r]) (cache_matches ?b1)\<rparr>))
              (note_weight r (?a1\<lparr>best_score := score_l, best_rule := Some r,
                 cache_matches := map_option (\<lambda>c. c @ [r]) (cache_matches ?a1)\<rparr>))"
        using r1 by (intro cache_rel_note_weight) (auto simp: cache_rel_def split: option.splits)
      from Cons.IH [OF this] higher Inr res k s show ?thesis by simp
    next
      case tie
      have "cache_rel
              (note_weight r (?b1\<lparr>cache_matches := map_option (\<lambda>c. c @ [r]) (cache_matches ?b1)\<rparr>))
              (note_weight r (?a1\<lparr>cache_matches := map_option (\<lambda>c. c @ [r]) (cache_matches ?a1)\<rparr>))"
        using r1 by (intro cache_rel_note_weight) (auto simp: cache_rel_def split: option.splits)
      from Cons.IH [OF this] tie Inr res k s show ?thesis by simp
    next
      case lower
      with Inr res k s Cons.IH [OF r1] show ?thesis by simp
    qed
  qed
qed

lemma scan_space_superset:
  "cache_rel b a \<Longrightarrow>
     rel_sum (=) cache_rel (scan_space lib BEST_MATCHES self space b)
       (scan_space lib ALL_MATCHES self space a)"
proof (induction space arbitrary: b a)
  case Nil
  then show ?case by simp
next
  case (Cons ns space)
  show ?case
  proof (cases "bucket self ns")
    case (Inl e)
    then show ?thesis by simp
  next
    case (Inr found)
    show ?thesis
    proof (cases found)
      case None
      with Inr Cons show ?thesis by simp
    next
      case (Some rs)
      from scan_rules_superset [OF Cons.prems, of lib rs] Cons.IH Inr Some
      show ?thesis
        by (cases "scan_rules lib BEST_MATCHES rs b"; cases "scan_rules lib ALL_MATCHES rs a") simp_all
    qed
  qed
qed

lemma select_all_superset_of_best:
  assumes "RuleBase_select lib d self test ns BEST_MATCHES = Inr (sel, score, cache, k)"
      and "RuleBase_select lib d' self test ns ALL_MATCHES = Inr (sel', score', cache', k')"
  shows "score' = score \<and> k' = k \<and> (\<exists>cb ca. cache = Some cb \<and> cache' = Some ca \<and> set cb \<subseteq> set ca)"
proof -
  let ?st0 = "\<lambda>strat. \<lparr>best_score = 0, best_rule = None, weight_calculation = False,
                 cache_matches = (if strat = FIRST_MATCH then None else Some []),
                 knowledge = test\<rparr>"
  have "cache_rel (?st0 BEST_MATCHES) (?st0 ALL_MATCHES)" by (simp add: cache_rel_def)
  from scan_space_superset [OF this, of lib self "search_space self ns"] assms
  show ?thesis
    by (auto simp: RuleBase_select_def cache_rel_def split: sum.splits option.splits)
qed

lemmas select_defs =
  RuleBase_select_def search_space_def bucket_def note_weight_def choose_rule_def

text \<open>
  Claim C1. The claim: with \<^verbatim>\<open>ALL_MATCHES\<close> the candidate set holds every rule whose
  score is nonzero. The code appends a rule only when its score is at least the best
  score so far; a rule that scores lower than an earlier one is skipped. With
  \<^verbatim>\<open>*.openai.com\<close> in namespace \<^verbatim>\<open>level-1\<close> and \<^verbatim>\<open>*.com\<close> in \<^verbatim>\<open>level-2\<close>, searched in
  that order, the second rule scores 100 + 4/14 on the session and is not among the
  candidates.
\<close>

theorem select_all_matches_omits_lower_score:
  "RuleBase_select lib draw (iadd (iadd [] rule_openai) rule_com) session NsNone ALL_MATCHES
     = Inr (OneRule rule_openai, 1411 / 14, Some [rule_openai], session)
   \<and> Rule_match lib rule_com session = Inr (702 / 7, session)"
  by (simp add: iadd_two_namespaces select_defs match_rule_openai match_rule_com)

text \<open>
  Claim C2. The claim: when more than one candidate remains, the first component of the
  result is one rule of the candidate set. When all the candidates have weight 1.0 the
  code returns \<^verbatim>\<open>random.choices(cache_matches)\<close> as it is, a list of one rule, where
  the weighted branch takes element \<^verbatim>\<open>[0]\<close> of it. Two rules of weight 1.0 tied at the
  best score give a list as first component, whatever the draw.
\<close>

theorem select_unweighted_tie_returns_list:
  "RuleBase_select lib draw [(''level-1'', [rule_a, rule_b])] session (NsStr ''level-1'') BEST_MATCHES
     = Inr (RuleList (random_choices draw [rule_a, rule_b]), 702 / 7, Some [rule_a, rule_b],
            session)"
  by (simp add: select_defs match_rule_a match_rule_b weight_rule_a weight_rule_b)

text \<open>
  Claim C3. The claim: given an iterable of namespaces, \<^verbatim>\<open>select\<close> searches the listed
  namespaces in order. The code wraps every truthy iterable, not only a string, into a
  one-element search space, so the tuple or list itself is looked up as a key: the tuple
  \<^verbatim>\<open>('level-1',)\<close> is no key of the base and nothing is searched, and the list
  \<^verbatim>\<open>['level-1']\<close> is unhashable and raises \<^verbatim>\<open>TypeError\<close>. The same namespace given
  as a string finds the rule.
\<close>

theorem select_iterable_namespace_not_searched:
  "RuleBase_select lib draw [(''level-1'', [rule_openai])] session (NsStr ''level-1'') BEST_MATCHES
     = Inr (OneRule rule_openai, 1411 / 14, Some [rule_openai], session)
   \<and> RuleBase_select lib draw [(''level-1'', [rule_openai])] session (NsTuple [''level-1''])
       BEST_MATCHES
     = Inr (NoRule, 0, Some [], session)
   \<and> RuleBase_select lib draw [(''level-1'', [rule_openai])] session (NsList [''level-1''])
       BEST_MATCHES
     = Inl TypeError"
  by (simp add: select_defs match_rule_openai)

end
